theory Spec2Isabelle
  imports Main "HOL-Library.Char_ord" "HOL-Library.List_Lexorder"
begin

section \<open>Regular expressions of the Go \<open>regexp\<close> package, as far as the programs use them\<close>

text \<open>
  Both programs compile their patterns with \<open>regexp.MustCompile\<close>. The patterns only use
  literal bytes, ASCII character classes, alternation, concatenation, \<open>?\<close>, \<open>+\<close> and
  \<open>*\<close>, and the anchors \<open>^\<close> and \<open>$\<close>, which without the \<open>m\<close> flag stand for the beginning
  and the end of the whole text (\<open>$\<close> is not satisfied in front of a final newline).
  A Go string is a sequence of bytes, here a \<open>char list\<close>; every class of the patterns
  is ASCII, so matching byte by byte is what the package does.
\<close>

datatype regexp =
    Nomatch
  | Eps
  | Range char char
  | Alt regexp regexp
  | Seq regexp regexp
  | Star regexp

definition Lit :: "char \<Rightarrow> regexp" where
  "Lit c = Range c c"

definition Plus :: "regexp \<Rightarrow> regexp" where
  "Plus r = Seq r (Star r)"

definition Opt :: "regexp \<Rightarrow> regexp" where
  "Opt r = Alt Eps r"

fun Str :: "string \<Rightarrow> regexp" where
  "Str [] = Eps"
| "Str (c # cs) = Seq (Lit c) (Str cs)"

fun nullable :: "regexp \<Rightarrow> bool" where
  "nullable Nomatch = False"
| "nullable Eps = True"
| "nullable (Range lo hi) = False"
| "nullable (Alt r s) = (nullable r \<or> nullable s)"
| "nullable (Seq r s) = (nullable r \<and> nullable s)"
| "nullable (Star r) = True"

fun deriv :: "char \<Rightarrow> regexp \<Rightarrow> regexp" where
  "deriv c Nomatch = Nomatch"
| "deriv c Eps = Nomatch"
| "deriv c (Range lo hi) = (if lo \<le> c \<and> c \<le> hi then Eps else Nomatch)"
| "deriv c (Alt r s) = Alt (deriv c r) (deriv c s)"
| "deriv c (Seq r s) =
     (if nullable r then Alt (Seq (deriv c r) s) (deriv c s) else Seq (deriv c r) s)"
| "deriv c (Star r) = Seq (deriv c r) (Star r)"

text \<open>\<open>fullmatch r s\<close>: the whole text \<open>s\<close> is matched by \<open>r\<close>, which is what
  \<open>MatchString\<close> decides for a pattern \<open>^r$\<close>.\<close>

fun fullmatch :: "regexp \<Rightarrow> string \<Rightarrow> bool" where
  "fullmatch r [] = nullable r"
| "fullmatch r (c # cs) = fullmatch (deriv c r) cs"

text \<open>The words a pattern denotes, to reason about all texts at once.\<close>

inductive_set star :: "string set \<Rightarrow> string set" for L :: "string set" where
  star_empty: "[] \<in> star L"
| star_step: "u \<in> L \<Longrightarrow> v \<in> star L \<Longrightarrow> u @ v \<in> star L"

fun lang :: "regexp \<Rightarrow> string set" where
  "lang Nomatch = {}"
| "lang Eps = {[]}"
| "lang (Range lo hi) = {[c] | c. lo \<le> c \<and> c \<le> hi}"
| "lang (Alt r s) = lang r \<union> lang s"
| "lang (Seq r s) = {u @ v | u v. u \<in> lang r \<and> v \<in> lang s}"
| "lang (Star r) = star (lang r)"

section \<open>version\_check: the version classifier\<close>

definition digits :: regexp where
  "digits = Plus (Range CHR ''0'' CHR ''9'')"

definition letters :: regexp where
  "letters = Plus (Alt (Range CHR ''a'' CHR ''z'') (Range CHR ''A'' CHR ''Z''))"

text \<open>\<open>v?[0-9]+\.[0-9]+\.[0-9]+\<close>, the common head of the four patterns.\<close>

definition version_core :: regexp where
  "version_core =
     Seq (Opt (Lit CHR ''v''))
       (Seq digits (Seq (Lit CHR ''.'') (Seq digits (Seq (Lit CHR ''.'') digits))))"

text \<open>\<open>(\.[0-9]+|\_[a-zA-Z]+(\.[0-9]+)*)*\<close>, the common tail of the last three patterns.\<close>

definition qualifiers :: regexp where
  "qualifiers =
     Star (Alt (Seq (Lit CHR ''.'') digits)
               (Seq (Lit CHR ''_'') (Seq letters (Star (Seq (Lit CHR ''.'') digits)))))"

definition versionRelease :: regexp where
  "versionRelease = version_core"

definition versionPrerelease :: regexp where
  "versionPrerelease =
     Seq version_core
       (Seq (Alt (Lit CHR ''-'') (Lit CHR ''~''))
         (Seq (Alt (Str ''alpha'') (Alt (Str ''beta'') (Alt (Str ''rc'') (Str ''pre''))))
              qualifiers))"

definition versionPostrelease :: regexp where
  "versionPostrelease =
     Seq version_core
       (Seq (Lit CHR ''.'')
         (Seq (Alt (Str ''fix'') (Alt (Str ''next'') (Str ''post''))) qualifiers))"

definition versionIntermediate :: regexp where
  "versionIntermediate =
     Seq version_core (Seq (Lit CHR ''_'') (Seq letters qualifiers))"

definition MatchString :: "regexp \<Rightarrow> string \<Rightarrow> bool" where
  "MatchString re s = fullmatch re s"

definition Println :: "string \<Rightarrow> string" where
  "Println s = s @ [CHR 0x0A]"

text \<open>
  \<open>checkVersion\<close> never returns: each branch ends in \<open>os.Exit\<close>. The model returns what was
  written to standard output and the exit status. The logger writes to standard error
  only and is left out.
\<close>

definition checkVersion :: "bool \<Rightarrow> bool \<Rightarrow> string \<Rightarrow> string \<times> nat" where
  "checkVersion typeFlag buildTypeFlag versionStr =
     (if MatchString versionRelease versionStr then
        ((if typeFlag then Println ''Release'' else [])
           @ (if buildTypeFlag then Println ''Release'' else []), 0)
      else if MatchString versionPrerelease versionStr then
        ((if typeFlag then Println ''Pre release'' else [])
           @ (if buildTypeFlag then Println ''Debug'' else []), 0)
      else if MatchString versionPostrelease versionStr then
        ((if typeFlag then Println ''Post release'' else [])
           @ (if buildTypeFlag then Println ''Debug'' else []), 0)
      else if MatchString versionIntermediate versionStr then
        ((if typeFlag then Println ''Intermediate release'' else [])
           @ (if buildTypeFlag then Println ''Debug'' else []), 0)
      else ([], 1))"









section \<open>The functions of Go's \<open>strings\<close>, \<open>sort\<close> and \<open>path/filepath\<close> that describe calls\<close>

definition HasPrefix :: "string \<Rightarrow> string \<Rightarrow> bool" where
  "HasPrefix s p = (take (length p) s = p)"

definition HasSuffix :: "string \<Rightarrow> string \<Rightarrow> bool" where
  "HasSuffix s p = (length p \<le> length s \<and> drop (length s - length p) s = p)"

definition TrimPrefix :: "string \<Rightarrow> string \<Rightarrow> string" where
  "TrimPrefix s p = (if HasPrefix s p then drop (length p) s else s)"

definition TrimSuffix :: "string \<Rightarrow> string \<Rightarrow> string" where
  "TrimSuffix s p = (if HasSuffix s p then take (length s - length p) s else s)"

fun Contains :: "string \<Rightarrow> string \<Rightarrow> bool" where
  "Contains [] sub = (sub = [])"
| "Contains (c # cs) sub = (HasPrefix (c # cs) sub \<or> Contains cs sub)"

text \<open>\<open>strings.Split(s, sep)\<close> for a separator of one byte (the program's separators
  are \<open>"n"\<close>, \<open>"\n"\<close>, \<open>"/"\<close> and \<open>"-"\<close>). There is always at least one piece,
  so the first case of the \<open>case\<close> below never arises.\<close>

fun Split :: "string \<Rightarrow> char \<Rightarrow> string list" where
  "Split [] sep = [[]]"
| "Split (c # cs) sep =
     (if c = sep then [] # Split cs sep
      else (case Split cs sep of [] \<Rightarrow> [[c]] | p # ps \<Rightarrow> (c # p) # ps))"

text \<open>\<open>strings.SplitN(s, sep, 2)\<close> for a separator of one byte: cut at the first
  separator, or the text alone when it has none.\<close>

definition SplitN2 :: "string \<Rightarrow> char \<Rightarrow> string list" where
  "SplitN2 s sep =
     (if sep \<in> set s
      then [takeWhile (\<lambda>c. c \<noteq> sep) s, drop 1 (dropWhile (\<lambda>c. c \<noteq> sep) s)]
      else [s])"

text \<open>
  White space of \<open>strings.Fields\<close> and \<open>strings.TrimSpace\<close>. On ASCII text it is
  tab, newline, vertical tab, form feed, carriage return and space. Go also takes the
  UTF-8 encodings of the Unicode spaces beyond ASCII as white space; this model does
  not, so it is the Go function on texts whose bytes are all below 128.
\<close>

definition isSpace :: "char \<Rightarrow> bool" where
  "isSpace c = (c \<in> {CHR 0x09, CHR 0x0A, CHR 0x0B, CHR 0x0C, CHR 0x0D, CHR 0x20})"

definition ascii :: "string \<Rightarrow> bool" where
  "ascii s = list_all (\<lambda>c. (of_char c :: nat) < 128) s"

fun fields_from :: "string \<Rightarrow> string \<Rightarrow> string list" where
  "fields_from w [] = (if w = [] then [] else [w])"
| "fields_from w (c # cs) =
     (if isSpace c then (if w = [] then fields_from [] cs else w # fields_from [] cs)
      else fields_from (w @ [c]) cs)"

definition Fields :: "string \<Rightarrow> string list" where
  "Fields s = fields_from [] s"

definition TrimSpace :: "string \<Rightarrow> string" where
  "TrimSpace s = rev (dropWhile isSpace (rev (dropWhile isSpace s)))"

fun Join :: "string list \<Rightarrow> string \<Rightarrow> string" where
  "Join [] sep = []"
| "Join [x] sep = x"
| "Join (x # y # ys) sep = x @ sep @ Join (y # ys) sep"

text \<open>\<open>strings.ReplaceAll(s, old, new)\<close> for \<open>old\<close> of one byte.\<close>

definition ReplaceAll :: "string \<Rightarrow> char \<Rightarrow> string \<Rightarrow> string" where
  "ReplaceAll s old new = concat (map (\<lambda>c. if c = old then new else [c]) s)"

text \<open>\<open>strings.Replace(s, old, new, 1)\<close>: the first occurrence only.\<close>

fun Replace1 :: "string \<Rightarrow> string \<Rightarrow> string \<Rightarrow> string" where
  "Replace1 [] old new = (if old = [] then new else [])"
| "Replace1 (c # cs) old new =
     (if HasPrefix (c # cs) old then new @ drop (length old) (c # cs)
      else c # Replace1 cs old new)"

text \<open>\<open>sort.Strings\<close> orders byte strings lexically; \<open>sort\<close> on \<open>char list\<close> with the
  order of \<open>List_Lexorder\<close> over \<open>Char_ord\<close> is that order.\<close>

definition sort_Strings :: "string list \<Rightarrow> string list" where
  "sort_Strings xs = sort xs"

text \<open>\<open>filepath.Base\<close> where the path separator is \<open>/\<close> and there are no volume names.\<close>

definition Base :: "string \<Rightarrow> string" where
  "Base path =
     (if path = [] then ''.''
      else let stripped = rev (dropWhile (\<lambda>c. c = CHR ''/'') (rev path));
               lastElem = rev (takeWhile (\<lambda>c. c \<noteq> CHR ''/'') (rev stripped))
           in if lastElem = [] then ''/'' else lastElem)"

text \<open>
  \<open>re.ReplaceAllString(s, "")\<close> for a pattern \<open>r$\<close>: a match has to reach the end of the
  text, so the leftmost one starts at the first position whose remaining text \<open>r\<close>
  matches as a whole, and the text is cut there.
\<close>

fun ReplaceAllString_to_end :: "regexp \<Rightarrow> string \<Rightarrow> string" where
  "ReplaceAllString_to_end r [] = []"
| "ReplaceAllString_to_end r (c # cs) =
     (if fullmatch r (c # cs) then [] else c # ReplaceAllString_to_end r cs)"

section \<open>describe\<close>

text \<open>
  The program reads one environment variable and the standard output of five \<open>git\<close>
  commands. They are the fields of \<open>world\<close>; \<open>None\<close> is an unset variable, or a command
  whose \<open>Output()\<close> returned an error. A text is the output as \<open>git\<close> wrote it, with the
  newline that ends each of its lines.
\<close>

record world =
  PROJECT_NAME :: "string option"
  git_remote_v :: "string option"
  git_describe_abbrev2_tags_HEAD :: "string option"
  git_describe_abbrev0_tags_HEAD :: "string option"
  git_describe_abbrev2_always_tags :: "string option"
  git_describe_abbrev0_always_tags :: "string option"

definition Getenv :: "string option \<Rightarrow> string" where
  "Getenv v = (case v of None \<Rightarrow> [] | Some s \<Rightarrow> s)"

text \<open>A \<open>for _, line := range lines\<close> loop whose body either returns a result or goes on
  to the next line (\<open>continue\<close>, or a line without \<open>fetch\<close>); after the last line the
  function returns the empty string.\<close>

fun first_result :: "(string \<Rightarrow> string option) \<Rightarrow> string list \<Rightarrow> string" where
  "first_result body [] = []"
| "first_result body (line # rest) =
     (case body line of Some result \<Rightarrow> result | None \<Rightarrow> first_result body rest)"

definition Project_line :: "string \<Rightarrow> string option" where
  "Project_line line =
     (if Contains line ''fetch'' then
        (let parts = Fields line in
         if length parts < 2 then None
         else
           (let url = parts ! 0 in
            if Contains url ''://'' then
              (let pathParts = Split url CHR ''/'' in
               if length pathParts < 2 then None
               else
                 (let repoPath = Join (drop (length pathParts - 2) pathParts) ''/'' in
                  Some (ReplaceAll (TrimSuffix repoPath ''.git'') CHR ''/'' ''-'')))
            else
              (let sshParts = SplitN2 url CHR '':'' in
               if length sshParts \<noteq> 2 then None
               else
                 (let repoPath = sshParts ! 1 in
                  Some (ReplaceAll (TrimSuffix repoPath ''.git'') CHR ''/'' ''-'')))))
      else None)"

definition Project :: "world \<Rightarrow> string" where
  "Project w =
     (let projectName = Getenv (PROJECT_NAME w) in
      if projectName \<noteq> [] then projectName
      else
        (case git_remote_v w of
           None \<Rightarrow> []
         | Some output \<Rightarrow> first_result Project_line (Split output CHR ''n'')))"

definition Module_line :: "string \<Rightarrow> string option" where
  "Module_line line =
     (if Contains line ''fetch'' then
        (let parts = Fields line in
         if length parts < 2 then None
         else
           (let url = parts ! 1;
                afterColon = SplitN2 url CHR '':'' in
            if length afterColon < 2 then None
            else
              (let path = TrimSuffix (afterColon ! 1) ''.git'' in
               Some (Base path))))
      else None)"

definition Module :: "world \<Rightarrow> string" where
  "Module w =
     (let projectName = Getenv (PROJECT_NAME w) in
      if projectName \<noteq> [] then projectName
      else
        (case git_remote_v w of
           None \<Rightarrow> []
         | Some output \<Rightarrow> first_result Module_line (Split output CHR 0x0A)))"

text \<open>\<open>-g[a-f0-9]+$\<close> (the \<open>$\<close> is in \<open>ReplaceAllString_to_end\<close>).\<close>

definition hexdigit :: regexp where
  "hexdigit = Alt (Range CHR ''a'' CHR ''f'') (Range CHR ''0'' CHR ''9'')"

definition hash_suffix :: regexp where
  "hash_suffix = Seq (Str ''-g'') (Plus hexdigit)"

definition Release :: "int \<Rightarrow> world \<Rightarrow> string" where
  "Release RELEASE w =
     (if RELEASE = 1 then
        (case git_describe_abbrev2_tags_HEAD w of
           None \<Rightarrow> []
         | Some output \<Rightarrow>
             (let result = ReplaceAllString_to_end hash_suffix output;
                  parts = Split result CHR ''-'' in
              if length parts > 1 then parts ! (length parts - 2) else ''0''))
      else ''1'')"

definition versionTag :: "world \<Rightarrow> string" where
  "versionTag w =
     (case git_describe_abbrev0_tags_HEAD w of
        None \<Rightarrow> []
      | Some output \<Rightarrow>
          Replace1 (TrimPrefix (TrimSpace output) ''v'') ''-'' ''~'')"

text \<open>The loop body of \<open>versionAbbrev\<close>: what one line appends to \<open>versions\<close>.\<close>

definition abbrev_line :: "string \<Rightarrow> string list" where
  "abbrev_line line =
     (if HasPrefix line ''v'' then [Replace1 (Replace1 line ''-g'' []) ''-'' ''~''] else [])"

definition versionAbbrev :: "world \<Rightarrow> string" where
  "versionAbbrev w =
     (case git_describe_abbrev2_always_tags w of
        None \<Rightarrow> []
      | Some output \<Rightarrow>
          (let lines = Split (TrimSpace output) CHR ''n'';
               versions = sort_Strings (concat (map abbrev_line lines)) in
           if length versions > 0 then TrimPrefix (versions ! (length versions - 1)) ''v''
           else []))"

definition rank_line :: "string \<Rightarrow> string list" where
  "rank_line line = (if HasPrefix line ''v'' then [line] else [])"

definition versionRank :: "world \<Rightarrow> string" where
  "versionRank w =
     (case git_describe_abbrev0_always_tags w of
        None \<Rightarrow> []
      | Some output \<Rightarrow>
          (let lines = Split (TrimSpace output) CHR ''n'';
               versions = sort_Strings (concat (map rank_line lines)) in
           if length versions > 0 then TrimPrefix (versions ! (length versions - 1)) ''v''
           else []))"

text \<open>\<open>Version\<close> either returns the version (\<open>Inr\<close>) or ends the process with
  \<open>os.Exit(1)\<close> (\<open>Inl 1\<close>).\<close>

definition Version :: "string \<Rightarrow> world \<Rightarrow> nat + string" where
  "Version VERSIONING w =
     (if VERSIONING = ''tag'' then Inr (versionTag w)
      else if VERSIONING = ''abbrev'' then Inr (versionAbbrev w)
      else if VERSIONING = ''rank'' then Inr (versionRank w)
      else Inl 1)"

definition describe_VERSION :: string where
  "describe_VERSION = ''0.4''"

definition Help :: string where
  "Help =
     Println ''describe project version and release from git describe''
   @ Println ''usage: describe [-h|--help] [-v|--version] [-r|--release] project|version|release|full''
   @ Println ''options:''
   @ Println ''    -h|--help      print this help and exit''
   @ Println ''    -V|--version   print version number''
   @ Println ''    -d|--debug     debug output''
   @ Println ''    --no-color     no color output''
   @ Println ''    -r|--release   use commit number as release number, default is no and release is 1''
   @ Println ''    -s|--strategy  versioning strategy type: tag, abbrev, rank; default is tag''
   @ Println ''commands:''
   @ Println ''    project        print project name''
   @ Println ''    module         print module name''
   @ Println ''    version        print project version''
   @ Println ''    release        print project release''
   @ Println ''    full           print full project name-version-release''"

text \<open>\<open>main\<close> of describe, after \<open>flag.Parse\<close>: the parsed flags, the remaining
  arguments and the world are the input; the result is the text on standard output and
  the exit status. \<open>-d\<close> and \<open>--no-color\<close> only change what the logger writes to
  standard error.\<close>

record flags =
  helpFlag :: bool
  versionFlag :: bool
  releaseFlag :: bool
  strategy :: string

definition run_command :: "string \<Rightarrow> string \<Rightarrow> int \<Rightarrow> world \<Rightarrow> string \<times> nat" where
  "run_command command VERSIONING RELEASE w =
     (if command = ''project'' then (Println (Project w), 0)
      else if command = ''module'' then (Println (Module w), 0)
      else if command = ''version'' then
        (case Version VERSIONING w of
           Inl status \<Rightarrow> ([], status)
         | Inr v \<Rightarrow> (Println v, 0))
      else if command = ''release'' then (Println (Release RELEASE w), 0)
      else if command = ''full'' then
        (case Version VERSIONING w of
           Inl status \<Rightarrow> ([], status)
         | Inr v \<Rightarrow> (Project w @ ''-'' @ v @ ''-'' @ Release RELEASE w, 0))
      else ([], 1))"

definition describe_main :: "flags \<Rightarrow> string list \<Rightarrow> world \<Rightarrow> string \<times> nat" where
  "describe_main fl args w =
     (if helpFlag fl then (Help, 0)
      else if versionFlag fl then (Println describe_VERSION, 0)
      else
        (let RELEASE = (if releaseFlag fl then 1 else 0) in
         if length args = 0 then
           (Println ''Error: No command provided. Usage: describe module|project|version|release|full'', 1)
         else
           (let command = args ! 0 in
            if strategy fl = ''tag'' \<or> strategy fl = ''abbrev'' \<or> strategy fl = ''rank'' then
              run_command command (strategy fl) RELEASE w
            else ([], 1))))"

section \<open>Notions of the specification and of the proofs\<close>

subsection \<open>The classifier as the specification words it\<close>

datatype category = Cat_release | Cat_pre_release | Cat_post_release | Cat_intermediate

fun pattern :: "category \<Rightarrow> regexp" where
  "pattern Cat_release = versionRelease"
| "pattern Cat_pre_release = versionPrerelease"
| "pattern Cat_post_release = versionPostrelease"
| "pattern Cat_intermediate = versionIntermediate"

fun label :: "category \<Rightarrow> string" where
  "label Cat_release = ''Release''"
| "label Cat_pre_release = ''Pre release''"
| "label Cat_post_release = ''Post release''"
| "label Cat_intermediate = ''Intermediate release''"

fun build_type :: "category \<Rightarrow> string" where
  "build_type Cat_release = ''Release''"
| "build_type Cat_pre_release = ''Debug''"
| "build_type Cat_post_release = ''Debug''"
| "build_type Cat_intermediate = ''Debug''"

text \<open>The first category, in the order of precedence, whose pattern matches.\<close>

definition first_category :: "string \<Rightarrow> category option" where
  "first_category s =
     find (\<lambda>c. MatchString (pattern c) s)
       [Cat_release, Cat_pre_release, Cat_post_release, Cat_intermediate]"

subsection \<open>What follows the numeric core of a version\<close>

definition is_digit :: "char \<Rightarrow> bool" where
  "is_digit c = (CHR ''0'' \<le> c \<and> c \<le> CHR ''9'')"

definition drop_char :: "char \<Rightarrow> string \<Rightarrow> string" where
  "drop_char c s = (case s of [] \<Rightarrow> [] | x # xs \<Rightarrow> if x = c then xs else s)"

text \<open>Reads an optional \<open>v\<close>, a run of digits, an optional dot, a run of digits, an
  optional dot and a run of digits, and returns the rest of the text.\<close>

definition after_core :: "string \<Rightarrow> string" where
  "after_core s =
     dropWhile is_digit (drop_char CHR ''.'' (dropWhile is_digit
       (drop_char CHR ''.'' (dropWhile is_digit (drop_char CHR ''v'' s)))))"

subsection \<open>Worlds and command lines to evaluate the programs on\<close>

definition empty_world :: world where
  "empty_world =
     \<lparr>PROJECT_NAME = None, git_remote_v = None,
      git_describe_abbrev2_tags_HEAD = None, git_describe_abbrev0_tags_HEAD = None,
      git_describe_abbrev2_always_tags = None, git_describe_abbrev0_always_tags = None\<rparr>"

text \<open>A line of \<open>git remote -v\<close>: the remote's name, a tab, its URL, a space and the
  direction; one remote gives a fetch line and a push line.\<close>

definition fetch_line :: "string \<Rightarrow> string \<Rightarrow> string" where
  "fetch_line name url = name @ [CHR 0x09] @ url @ '' (fetch)''"

definition remote_listing :: "string \<Rightarrow> string \<Rightarrow> string" where
  "remote_listing name url =
     Println (name @ [CHR 0x09] @ url @ '' (fetch)'') @ Println (name @ [CHR 0x09] @ url @ '' (push)'')"

definition release_world :: "string \<Rightarrow> world" where
  "release_world output = empty_world\<lparr>git_describe_abbrev2_tags_HEAD := Some output\<rparr>"

definition abbrev_world :: "string \<Rightarrow> world" where
  "abbrev_world output = empty_world\<lparr>git_describe_abbrev2_always_tags := Some output\<rparr>"


definition no_flags :: flags where
  "no_flags = \<lparr>helpFlag = False, versionFlag = False, releaseFlag = False, strategy = ''tag''\<rparr>"

subsection \<open>The release number and the abbrev strategy as the specification words them\<close>

definition is_hex :: "char \<Rightarrow> bool" where
  "is_hex c = (CHR ''a'' \<le> c \<and> c \<le> CHR ''f'' \<or> CHR ''0'' \<le> c \<and> c \<le> CHR ''9'')"

text \<open>The second-to-last segment when there are at least two, the text \<open>0\<close> otherwise.\<close>

definition second_to_last_or_zero :: "string list \<Rightarrow> string" where
  "second_to_last_or_zero parts =
     (if 2 \<le> length parts then parts ! (length parts - 2) else ''0'')"

text \<open>Removing the marker \<open>-g<hash>\<close> as a whole: the first \<open>-g\<close> together with the
  hexadecimal digits that follow it.\<close>

fun remove_hash_marker :: "string \<Rightarrow> string" where
  "remove_hash_marker [] = []"
| "remove_hash_marker (c # cs) =
     (if HasPrefix (c # cs) ''-g'' then dropWhile is_hex (drop 2 (c # cs))
      else c # remove_hash_marker cs)"

text \<open>
  The abbrev strategy in the words of the specification: the lines of the output
  (separated by newlines) that begin with \<open>v\<close>, on each the marker removed by
  \<open>remove_marker\<close> and the first \<open>-\<close> turned into \<open>~\<close>, sorted lexically; the result is
  the greatest entry without its leading \<open>v\<close>, or the empty string when there is none.
\<close>

definition abbrev_by_lines :: "(string \<Rightarrow> string) \<Rightarrow> string \<Rightarrow> string" where
  "abbrev_by_lines remove_marker output =
     (let lines = Split (TrimSpace output) CHR 0x0A;
          versions = sort_Strings (concat (map
            (\<lambda>line. if HasPrefix line ''v''
                    then [Replace1 (remove_marker line) ''-'' ''~''] else []) lines)) in
      if versions = [] then [] else TrimPrefix (last versions) ''v'')"

section \<open>The matcher decides the language of a pattern\<close>

lemma nullable_lang: "nullable r \<longleftrightarrow> [] \<in> lang r"
  by (induction r) (auto intro: star.intros)

lemma star_cons_split:
  assumes "x \<in> star L" and "x = c # w"
  shows "\<exists>u v. w = u @ v \<and> c # u \<in> L \<and> v \<in> star L"
  using assms
proof (induction arbitrary: w rule: star.induct)
  case star_empty
  then show ?case by simp
next
  case (star_step u v)
  show ?case
  proof (cases u)
    case Nil
    with star_step show ?thesis by simp
  next
    case (Cons a u')
    with star_step.prems have "a = c" and "w = u' @ v" by simp_all
    with Cons star_step.hyps show ?thesis by blast
  qed
qed

lemma star_cons_iff:
  "c # w \<in> star L \<longleftrightarrow> (\<exists>u v. w = u @ v \<and> c # u \<in> L \<and> v \<in> star L)"
proof
  assume "c # w \<in> star L"
  then show "\<exists>u v. w = u @ v \<and> c # u \<in> L \<and> v \<in> star L"
    by (rule star_cons_split) simp
next
  assume "\<exists>u v. w = u @ v \<and> c # u \<in> L \<and> v \<in> star L"
  then obtain u v where "w = u @ v" "c # u \<in> L" "v \<in> star L" by blast
  then show "c # w \<in> star L"
    using star_step [of "c # u" L v] by simp
qed

lemma lang_SeqI: "u \<in> lang r \<Longrightarrow> v \<in> lang s \<Longrightarrow> u @ v \<in> lang (Seq r s)"
  by auto

lemma deriv_lang: "w \<in> lang (deriv c r) \<longleftrightarrow> c # w \<in> lang r"
proof (induction r arbitrary: w)
  case (Seq r s)
  show ?case
  proof
    assume "w \<in> lang (deriv c (Seq r s))"
    then consider (l) u v where "w = u @ v" "c # u \<in> lang r" "v \<in> lang s"
      | (r) "nullable r" "c # w \<in> lang s"
      using Seq.IH by (auto split: if_splits)
    then show "c # w \<in> lang (Seq r s)"
    proof cases
      case l
      then have "(c # u) @ v \<in> lang (Seq r s)" by (intro lang_SeqI)
      with l show ?thesis by simp
    next
      case r
      then have "[] \<in> lang r" by (simp add: nullable_lang)
      with r have "[] @ (c # w) \<in> lang (Seq r s)" by (intro lang_SeqI)
      then show ?thesis by simp
    qed
  next
    assume "c # w \<in> lang (Seq r s)"
    then obtain u v where uv: "c # w = u @ v" "u \<in> lang r" "v \<in> lang s" by auto
    show "w \<in> lang (deriv c (Seq r s))"
    proof (cases u)
      case Nil
      with uv have "nullable r" "c # w \<in> lang s" by (simp_all add: nullable_lang)
      with Seq.IH(2) [of w] show ?thesis by simp
    next
      case (Cons a u')
      with uv have "w = u' @ v" "c # u' \<in> lang r" by simp_all
      then have "w \<in> lang (Seq (deriv c r) s)"
        using uv Seq.IH(1) [of u'] lang_SeqI [of u' "deriv c r" v s] by simp
      then show ?thesis by simp
    qed
  qed
next
  case (Star r)
  then show ?case by (auto simp: star_cons_iff)
qed auto

lemma fullmatch_lang: "fullmatch r s \<longleftrightarrow> s \<in> lang r"
  by (induction s arbitrary: r) (simp_all add: nullable_lang deriv_lang)

lemma MatchString_lang: "MatchString re s \<longleftrightarrow> s \<in> lang re"
  by (simp add: MatchString_def fullmatch_lang)

lemma lang_Seq_iff:
  "w \<in> lang (Seq r s) \<longleftrightarrow> (\<exists>u v. w = u @ v \<and> u \<in> lang r \<and> v \<in> lang s)"
  by auto

lemma lang_Lit: "w \<in> lang (Lit c) \<longleftrightarrow> w = [c]"
  by (auto simp: Lit_def)

lemma star_range:
  "w \<in> star (lang (Range lo hi)) \<Longrightarrow> \<forall>c\<in>set w. lo \<le> c \<and> c \<le> hi"
  by (induction rule: star.induct) auto

section \<open>The four patterns exclude each other\<close>

lemma lang_digits:
  assumes "w \<in> lang digits"
  shows "w \<noteq> [] \<and> (\<forall>c\<in>set w. is_digit c)"
proof -
  from assms obtain u v where uv: "w = u @ v" "u \<in> lang (Range CHR ''0'' CHR ''9'')"
    "v \<in> star (lang (Range CHR ''0'' CHR ''9''))"
    unfolding digits_def Plus_def lang_Seq_iff lang.simps(6) by blast
  from uv(3) have "\<forall>c\<in>set v. is_digit c"
    unfolding is_digit_def by (rule star_range)
  moreover from uv(2) have "u \<noteq> [] \<and> (\<forall>c\<in>set u. is_digit c)"
    by (auto simp: is_digit_def)
  ultimately show ?thesis using uv(1) by auto
qed

lemma dropWhile_run:
  assumes "\<forall>c\<in>set a. P c" and "r = [] \<or> \<not> P (hd r)"
  shows "dropWhile P (a @ r) = r"
  using assms by (cases r) (simp_all add: dropWhile_append)

lemma drop_char_other: "s \<noteq> [] \<Longrightarrow> hd s \<noteq> c \<Longrightarrow> drop_char c (s @ r) = s @ r"
  by (cases s) (simp_all add: drop_char_def)

lemma drop_char_hit: "drop_char c (c # s) = s"
  by (simp add: drop_char_def)

lemma after_core_append:
  assumes w: "w \<in> lang version_core" and r: "r = [] \<or> \<not> is_digit (hd r)"
  shows "after_core (w @ r) = r"
proof -
  from w obtain p a x b y c where parts: "w = p @ a @ x @ b @ y @ c"
    "p \<in> lang (Opt (Lit CHR ''v''))" "a \<in> lang digits" "x \<in> lang (Lit CHR ''.'')"
    "b \<in> lang digits" "y \<in> lang (Lit CHR ''.'')" "c \<in> lang digits"
    unfolding version_core_def lang_Seq_iff by blast
  then have abc: "w = p @ a @ CHR ''.'' # b @ CHR ''.'' # c"
    "a \<in> lang digits" "b \<in> lang digits" "c \<in> lang digits"
    by (simp_all add: lang_Lit)
  note pt = parts(2)
  note da = lang_digits [OF abc(2)] and db = lang_digits [OF abc(3)] and dc = lang_digits [OF abc(4)]
  have not_dot: "\<not> is_digit CHR ''.''" by (simp add: is_digit_def)
  from da have "hd a \<noteq> CHR ''v''"
    by (cases a) (auto simp: is_digit_def)
  with da have "drop_char CHR ''v'' (a @ (CHR ''.'' # b @ CHR ''.'' # c @ r)) = a @ (CHR ''.'' # b @ CHR ''.'' # c @ r)"
    by (intro drop_char_other) simp_all
  moreover from pt have "p = [] \<or> p = [CHR ''v'']"
    by (auto simp: Opt_def lang_Lit)
  ultimately have s1: "drop_char CHR ''v'' (w @ r) = a @ (CHR ''.'' # b @ CHR ''.'' # c @ r)"
    using abc(1) by (auto simp: drop_char_hit)
  have s2: "dropWhile is_digit (a @ (CHR ''.'' # b @ CHR ''.'' # c @ r)) = CHR ''.'' # b @ CHR ''.'' # c @ r"
    using da not_dot by (intro dropWhile_run) simp_all
  have s3: "dropWhile is_digit (b @ (CHR ''.'' # c @ r)) = CHR ''.'' # c @ r"
    using db not_dot by (intro dropWhile_run) simp_all
  have s4: "dropWhile is_digit (c @ r) = r"
    using dc r by (intro dropWhile_run) simp_all
  show ?thesis
    by (simp add: after_core_def s1 s2 s3 s4 drop_char_hit)
qed

lemma after_core_release: "s \<in> lang versionRelease \<Longrightarrow> after_core s = []"
  using after_core_append [of s "[]"] by (simp add: versionRelease_def)

lemma after_core_Seq:
  assumes "s \<in> lang (Seq version_core (Seq first rest))"
    and "\<And>u. u \<in> lang first \<Longrightarrow> \<exists>x. u = [x] \<and> \<not> is_digit x \<and> x \<in> X"
  shows "\<exists>x t. after_core s = x # t \<and> x \<in> X"
proof -
  from assms(1) obtain w u v where *: "s = w @ u @ v" "w \<in> lang version_core" "u \<in> lang first"
    unfolding lang_Seq_iff by blast
  from assms(2) [OF *(3)] obtain x where x: "u = [x]" "\<not> is_digit x" "x \<in> X" by blast
  with * have "after_core (w @ (x # v)) = x # v"
    by (intro after_core_append) simp_all
  with * x show ?thesis by simp
qed

lemma not_digit:
  "\<not> is_digit CHR ''-''" "\<not> is_digit CHR ''~''" "\<not> is_digit CHR ''.''" "\<not> is_digit CHR ''_''"
  by (simp_all add: is_digit_def)

lemma after_core_prerelease:
  "s \<in> lang versionPrerelease \<Longrightarrow> \<exists>x t. after_core s = x # t \<and> x \<in> {CHR ''-'', CHR ''~''}"
  unfolding versionPrerelease_def
  using not_digit by (elim after_core_Seq) (auto simp: lang_Lit)

lemma after_core_postrelease:
  "s \<in> lang versionPostrelease \<Longrightarrow> \<exists>x t. after_core s = x # t \<and> x \<in> {CHR ''.''}"
  unfolding versionPostrelease_def
  using not_digit by (elim after_core_Seq) (auto simp: lang_Lit)

lemma after_core_intermediate:
  "s \<in> lang versionIntermediate \<Longrightarrow> \<exists>x t. after_core s = x # t \<and> x \<in> {CHR ''_''}"
  unfolding versionIntermediate_def
  using not_digit by (elim after_core_Seq) (auto simp: lang_Lit)

lemma patterns_exclusive:
  "\<not> (MatchString versionRelease s \<and> MatchString versionPrerelease s)"
  "\<not> (MatchString versionRelease s \<and> MatchString versionPostrelease s)"
  "\<not> (MatchString versionRelease s \<and> MatchString versionIntermediate s)"
  "\<not> (MatchString versionPrerelease s \<and> MatchString versionPostrelease s)"
  "\<not> (MatchString versionPrerelease s \<and> MatchString versionIntermediate s)"
  "\<not> (MatchString versionPostrelease s \<and> MatchString versionIntermediate s)"
  unfolding MatchString_lang
  using after_core_release [of s] after_core_prerelease [of s]
    after_core_postrelease [of s] after_core_intermediate [of s]
  by auto

text \<open>
  Claim C5. Whatever the version string, at most one of the four patterns (release,
  pre-release, post-release, intermediate) matches it; in particular no string is
  matched by both the post-release and the intermediate pattern.
\<close>

theorem at_most_one_category:
  "length (filter (\<lambda>re. MatchString re s)
     [versionRelease, versionPrerelease, versionPostrelease, versionIntermediate]) \<le> 1
   \<and> \<not> (MatchString versionPostrelease s \<and> MatchString versionIntermediate s)"
  using patterns_exclusive [of s] by auto

section \<open>version\_check\<close>

lemma checkVersion_first_category:
  "checkVersion typeFlag buildTypeFlag s =
     (case first_category s of
        None \<Rightarrow> ([], 1)
      | Some c \<Rightarrow>
          ((if typeFlag then Println (label c) else [])
             @ (if buildTypeFlag then Println (build_type c) else []), 0))"
  by (simp add: checkVersion_def first_category_def)

lemma classify_release:
  "first_category ''1.2.3'' = Some Cat_release"
  "checkVersion True True ''1.2.3'' = (Println ''Release'' @ Println ''Release'', 0)"
  by code_simp+

lemma classify_pre_release:
  "first_category ''1.2.3-beta.1'' = Some Cat_pre_release"
  "checkVersion True True ''1.2.3-beta.1'' = (Println ''Pre release'' @ Println ''Debug'', 0)"
  by code_simp+

lemma classify_post_release:
  "first_category ''1.2.3.fix.2'' = Some Cat_post_release"
  "checkVersion True True ''1.2.3.fix.2'' = (Println ''Post release'' @ Println ''Debug'', 0)"
  by code_simp+

lemma classify_intermediate:
  "first_category ''1.2.3_patched.1'' = Some Cat_intermediate"
  "checkVersion True True ''1.2.3_patched.1''
     = (Println ''Intermediate release'' @ Println ''Debug'', 0)"
  by code_simp+

text \<open>
  Claim C1. The version classifier tests its version string against the four patterns
  in the order release, pre-release, post-release, intermediate and stops at the first
  match; it prints the category label when the type flag is set and the build type
  (\<open>Release\<close> for the release category, \<open>Debug\<close> for the three others) when the
  build-type flag is set, and exits with status 0. In particular \<open>1.2.3\<close> is a Release
  with build type Release, \<open>1.2.3-beta.1\<close> a Pre release with Debug, \<open>1.2.3.fix.2\<close> a
  Post release with Debug and \<open>1.2.3_patched.1\<close> an Intermediate release with Debug.
\<close>

theorem checkVersion_precedence:
  "checkVersion typeFlag buildTypeFlag s =
     (case first_category s of
        None \<Rightarrow> ([], 1)
      | Some c \<Rightarrow>
          ((if typeFlag then Println (label c) else [])
             @ (if buildTypeFlag then Println (build_type c) else []), 0))
   \<and> first_category ''1.2.3'' = Some Cat_release
   \<and> checkVersion True True ''1.2.3'' = (Println ''Release'' @ Println ''Release'', 0)
   \<and> first_category ''1.2.3-beta.1'' = Some Cat_pre_release
   \<and> checkVersion True True ''1.2.3-beta.1'' = (Println ''Pre release'' @ Println ''Debug'', 0)
   \<and> first_category ''1.2.3.fix.2'' = Some Cat_post_release
   \<and> checkVersion True True ''1.2.3.fix.2'' = (Println ''Post release'' @ Println ''Debug'', 0)
   \<and> first_category ''1.2.3_patched.1'' = Some Cat_intermediate
   \<and> checkVersion True True ''1.2.3_patched.1''
         = (Println ''Intermediate release'' @ Println ''Debug'', 0)"
  by (intro conjI checkVersion_first_category classify_release classify_pre_release
      classify_post_release classify_intermediate)










section \<open>describe: the command line\<close>

text \<open>
  Claim C8 as stated fails: with \<open>-h\<close> the tool prints the help text and exits with
  status 0, also when the strategy is not a known one.
\<close>

theorem describe_help_counterexample:
  "describe_main (no_flags\<lparr>helpFlag := True, strategy := ''bogus''\<rparr>) [''version''] empty_world
     = (Help, 0)
   \<and> snd (describe_main (no_flags\<lparr>helpFlag := True, strategy := ''bogus''\<rparr>) [''version''] empty_world) = 0"
  by (simp add: describe_main_def no_flags_def)

lemma run_command_unknown:
  assumes "command \<notin> {''project'', ''module'', ''version'', ''release'', ''full''}"
  shows "run_command command VERSIONING RELEASE w = ([], 1)"
  using assms by (simp add: run_command_def)

text \<open>
  Claim C8, amended. When neither \<open>-h\<close> nor \<open>-V\<close> is given: with a strategy other than
  \<open>tag\<close>, \<open>abbrev\<close> and \<open>rank\<close>, and likewise with a positional command other than
  \<open>project\<close>, \<open>module\<close>, \<open>version\<close>, \<open>release\<close> and \<open>full\<close>, the tool exits with status 1
  and has written nothing to standard output; with an unknown strategy and no
  positional command at all it exits with status 1 after the one line that says that
  no command was provided. With \<open>-h\<close> the tool prints the help text and exits with status
  0, and with \<open>-V\<close> and no \<open>-h\<close> it prints the version number and exits with status 0,
  both before it looks at the strategy and at the command.
\<close>

lemma describe_main_unknown:
  "\<not> helpFlag fl \<and> \<not> versionFlag fl \<longrightarrow>
     (strategy fl \<notin> {''tag'', ''abbrev'', ''rank''} \<longrightarrow>
        describe_main fl (command # rest) w = ([], 1)
        \<and> describe_main fl [] w
            = (Println ''Error: No command provided. Usage: describe module|project|version|release|full'', 1))
     \<and> (command \<notin> {''project'', ''module'', ''version'', ''release'', ''full''} \<longrightarrow>
          describe_main fl (command # rest) w = ([], 1))"
  by (simp add: describe_main_def run_command_unknown del: insert_iff) (simp add: Let_def)

lemma describe_main_help: "helpFlag fl \<Longrightarrow> describe_main fl args w = (Help, 0)"
  by (simp add: describe_main_def)

lemma describe_main_version:
  "\<not> helpFlag fl \<Longrightarrow> versionFlag fl \<Longrightarrow> describe_main fl args w = (Println describe_VERSION, 0)"
  by (simp add: describe_main_def)

lemma describe_texts: "Help \<noteq> []" "Println describe_VERSION = ''0.4'' @ [CHR 0x0A]"
  by (simp_all add: Help_def Println_def describe_VERSION_def)

theorem describe_rejects_unknown:
  "(\<not> helpFlag fl \<and> \<not> versionFlag fl \<longrightarrow>
     (strategy fl \<notin> {''tag'', ''abbrev'', ''rank''} \<longrightarrow>
        describe_main fl (command # rest) w = ([], 1)
        \<and> describe_main fl [] w
            = (Println ''Error: No command provided. Usage: describe module|project|version|release|full'', 1))
     \<and> (command \<notin> {''project'', ''module'', ''version'', ''release'', ''full''} \<longrightarrow>
          describe_main fl (command # rest) w = ([], 1)))
   \<and> (helpFlag fl \<longrightarrow> describe_main fl args w = (Help, 0) \<and> Help \<noteq> [])
   \<and> (\<not> helpFlag fl \<and> versionFlag fl \<longrightarrow>
        describe_main fl args w = (''0.4'' @ [CHR 0x0A], 0))"
  using describe_main_unknown [of fl command rest w] describe_main_help [of fl args w]
    describe_main_version [of fl args w] describe_texts
  by simp

theorem describe_rejects_unknown_witness:
  "describe_main (no_flags\<lparr>strategy := ''bogus''\<rparr>) [''version''] empty_world = ([], 1)
   \<and> describe_main no_flags [''publish''] empty_world = ([], 1)
   \<and> describe_main (no_flags\<lparr>helpFlag := True\<rparr>) [''publish''] empty_world = (Help, 0)
   \<and> describe_main (no_flags\<lparr>versionFlag := True, strategy := ''bogus''\<rparr>) [''publish''] empty_world
       = (''0.4'' @ [CHR 0x0A], 0)"
  using describe_rejects_unknown [of "no_flags\<lparr>strategy := ''bogus''\<rparr>" "''version''" "[]" empty_world]
    describe_rejects_unknown [of no_flags "''publish''" "[]" empty_world]
    describe_rejects_unknown [of "no_flags\<lparr>helpFlag := True\<rparr>" "''publish''" "[]" empty_world
      "[''publish'']"]
    describe_rejects_unknown [of "no_flags\<lparr>versionFlag := True, strategy := ''bogus''\<rparr>"
      "''publish''" "[]" empty_world "[''publish'']"]
  by (simp add: no_flags_def)

text \<open>Without \<open>-h\<close> and \<open>-V\<close> and with a known strategy, the commands \<open>project\<close>,
  \<open>module\<close> and \<open>release\<close> print what \<open>Project\<close>, \<open>Module\<close> and \<open>Release\<close> return.\<close>

lemma describe_main_prints:
  assumes "\<not> helpFlag fl" and "\<not> versionFlag fl"
    and "strategy fl \<in> {''tag'', ''abbrev'', ''rank''}"
  shows "describe_main fl (''project'' # rest) w = (Println (Project w), 0)"
    and "describe_main fl (''module'' # rest) w = (Println (Module w), 0)"
    and "describe_main fl (''release'' # rest) w
           = (Println (Release (if releaseFlag fl then 1 else 0) w), 0)"
  using assms by (auto simp: describe_main_def run_command_def)

section \<open>describe: project and module names\<close>

text \<open>
  Claim C7. Whatever \<open>git remote -v\<close> prints (or if it fails), a non-empty value of the
  environment variable \<open>PROJECT_NAME\<close> is what both \<open>Project\<close> and \<open>Module\<close> return.
\<close>

theorem PROJECT_NAME_overrides:
  assumes "PROJECT_NAME w = Some name" and "name \<noteq> []"
  shows "Project w = name \<and> Module w = name"
  using assms by (simp add: Project_def Module_def Getenv_def)

theorem PROJECT_NAME_overrides_witness:
  "Project (empty_world\<lparr>PROJECT_NAME := Some ''foo'',
      git_remote_v := Some (remote_listing ''origin'' ''https://github.com/org/repo.git'')\<rparr>) = ''foo''
   \<and> Module (empty_world\<lparr>PROJECT_NAME := Some ''foo'',
      git_remote_v := Some (remote_listing ''origin'' ''https://github.com/org/repo.git'')\<rparr>) = ''foo''"
  using PROJECT_NAME_overrides [of "empty_world\<lparr>PROJECT_NAME := Some ''foo'',
      git_remote_v := Some (remote_listing ''origin'' ''https://github.com/org/repo.git'')\<rparr>" "''foo''"]
  by simp

text \<open>
  Claim C2 says that for a fetch line whose URL field is \<open>scheme://host/org/repo(.git)\<close>
  the project name is \<open>org-repo\<close>. \<open>Project\<close> cuts the listing at every letter \<open>n\<close>
  and takes the first field of a piece, where \<open>Module\<close> cuts it at the newlines and
  takes the second field of a line. For the remote \<open>origin\<close> with the URL
  \<open>https://github.com/golang/go.git\<close>, and for the remote \<open>upstream\<close> with the URL
  \<open>https://github.com/org/repo.git\<close>, \<open>Project\<close> returns the empty string; \<open>Module\<close>
  finds the URL of the first listing.
\<close>

theorem Project_misses_url:
  "Project (empty_world\<lparr>git_remote_v :=
       Some (remote_listing ''origin'' ''https://github.com/golang/go.git'')\<rparr>) = []
   \<and> Project (empty_world\<lparr>git_remote_v :=
       Some (remote_listing ''upstream'' ''https://github.com/org/repo.git'')\<rparr>) = []
   \<and> Module (empty_world\<lparr>git_remote_v :=
       Some (remote_listing ''origin'' ''https://github.com/golang/go.git'')\<rparr>) = ''go''"
  by code_simp

text \<open>For a remote named \<open>origin\<close> and a URL without the letter \<open>n\<close> the piece after
  the \<open>n\<close> of \<open>origin\<close> starts with the URL, and the result is the one of the claim.\<close>

lemma Project_origin_url_without_n:
  "Project (empty_world\<lparr>git_remote_v :=
       Some (remote_listing ''origin'' ''https://github.com/org/repo.git'')\<rparr>) = ''org-repo''"
  by code_simp

lemma first_result_find:
  assumes "find P lines = Some line"
    and "\<And>l. \<not> P l \<Longrightarrow> body l = None"
    and "body line = Some r"
  shows "first_result body lines = r"
  using assms(1)
proof (induction lines)
  case Nil
  then show ?case by simp
next
  case (Cons l ls)
  show ?case
  proof (cases "P l")
    case True
    with Cons.prems have "l = line" by simp
    with assms(3) show ?thesis by simp
  next
    case False
    with Cons.prems have "find P ls = Some line" by simp
    with Cons.IH assms(2) [OF False] show ?thesis by simp
  qed
qed

lemma find_holds: "find P xs = Some x \<Longrightarrow> P x"
  by (induction xs) (auto split: if_splits)

lemma SplitN2_first:
  assumes "sep \<notin> set a"
  shows "SplitN2 (a @ sep # b) sep = [a, b]"
proof -
  from assms have all: "\<forall>x\<in>set a. x \<noteq> sep" by blast
  then have "takeWhile (\<lambda>c. c \<noteq> sep) (a @ sep # b) = a"
    by (simp add: takeWhile_append)
  moreover from all have "dropWhile (\<lambda>c. c \<noteq> sep) (a @ sep # b) = sep # b"
    by (simp add: dropWhile_append)
  ultimately show ?thesis by (simp add: SplitN2_def)
qed

lemma HasSuffix_iff: "HasSuffix s p \<longleftrightarrow> (\<exists>q. s = q @ p)"
proof
  assume "HasSuffix s p"
  then have "s = take (length s - length p) s @ p"
    by (metis HasSuffix_def append_take_drop_id)
  then show "\<exists>q. s = q @ p" ..
next
  assume "\<exists>q. s = q @ p"
  then show "HasSuffix s p" by (auto simp: HasSuffix_def)
qed

lemma TrimSuffix_append: "TrimSuffix (s @ p) p = s"
  by (simp add: TrimSuffix_def HasSuffix_def)

lemma HasSuffix_after_slash:
  assumes "HasSuffix (p @ CHR ''/'' # repo) ''.git''"
  shows "HasSuffix repo ''.git''"
proof -
  from assms obtain q where "p @ CHR ''/'' # repo = q @ ''.git''"
    unfolding HasSuffix_iff ..
  then consider (inside) us where "us @ CHR ''/'' # repo = ''.git''"
    | (after) us where "CHR ''/'' # repo = us @ ''.git''"
    unfolding append_eq_append_conv2 by blast
  then show ?thesis
  proof cases
    case inside
    then have "CHR ''/'' \<in> set ''.git''"
      by (metis in_set_conv_decomp)
    then show ?thesis by simp
  next
    case after
    then show ?thesis
      by (cases us) (auto simp: HasSuffix_iff)
  qed
qed

lemma TrimSuffix_repo:
  assumes "sfx = ''.git'' \<or> sfx = [] \<and> \<not> HasSuffix repo ''.git''"
  shows "TrimSuffix (p @ CHR ''/'' # repo @ sfx) ''.git'' = p @ CHR ''/'' # repo"
proof -
  consider (git) "sfx = ''.git''" | (bare) "sfx = []" "\<not> HasSuffix repo ''.git''"
    using assms by blast
  then show ?thesis
  proof cases
    case git
    have "TrimSuffix ((p @ CHR ''/'' # repo) @ ''.git'') ''.git'' = p @ CHR ''/'' # repo"
      by (rule TrimSuffix_append)
    with git show ?thesis by simp
  next
    case bare
    then have "\<not> HasSuffix (p @ CHR ''/'' # repo) ''.git''"
      using HasSuffix_after_slash by blast
    with bare show ?thesis by (simp add: TrimSuffix_def)
  qed
qed

lemma Base_last_element:
  assumes "repo \<noteq> []" and "CHR ''/'' \<notin> set repo"
  shows "Base (p @ CHR ''/'' # repo) = repo"
proof -
  from assms have "hd (rev repo) \<noteq> CHR ''/''"
    by (metis hd_rev last_in_set)
  with assms have dw: "dropWhile (\<lambda>c. c = CHR ''/'') (rev repo @ CHR ''/'' # rev p)
      = rev repo @ CHR ''/'' # rev p"
    by (cases "rev repo") simp_all
  from assms have "\<forall>x\<in>set (rev repo). x \<noteq> CHR ''/''" by auto
  then have tw: "takeWhile (\<lambda>c. c \<noteq> CHR ''/'') (rev repo @ CHR ''/'' # rev p) = rev repo"
    by (simp add: takeWhile_append)
  show ?thesis
    by (simp add: Base_def Let_def dw tw assms(1))
qed

lemma Module_line_url:
  assumes fetch: "Contains line ''fetch''"
    and fields: "Fields line = name # url # others"
    and url: "url = a @ CHR '':'' # p @ CHR ''/'' # repo @ sfx"
    and a: "CHR '':'' \<notin> set a"
    and repo: "repo \<noteq> []" "CHR ''/'' \<notin> set repo"
    and sfx: "sfx = ''.git'' \<or> sfx = [] \<and> \<not> HasSuffix repo ''.git''"
  shows "Module_line line = Some repo"
proof -
  have "SplitN2 url CHR '':'' = [a, p @ CHR ''/'' # repo @ sfx]"
    unfolding url using a by (rule SplitN2_first)
  moreover have "Base (TrimSuffix (p @ CHR ''/'' # repo @ sfx) ''.git'') = repo"
    using TrimSuffix_repo [OF sfx] Base_last_element [OF repo] by simp
  ultimately show ?thesis
    using fetch fields by (simp add: Module_line_def Let_def)
qed

lemma Module_first_fetch_line:
  assumes env: "Getenv (PROJECT_NAME w) = []"
    and out: "git_remote_v w = Some output"
    and first: "find (\<lambda>l. Contains l ''fetch'') (Split output CHR 0x0A) = Some line"
    and line: "Module_line line = Some r"
  shows "Module w = r"
proof -
  have "first_result Module_line (Split output CHR 0x0A) = r"
    using first _ line
  proof (rule first_result_find)
    fix l assume "\<not> Contains l ''fetch''"
    then show "Module_line l = None" by (simp add: Module_line_def)
  qed
  with env out show ?thesis by (simp add: Module_def)
qed

lemma listing_first_fetch:
  "find (\<lambda>l. Contains l ''fetch'') (Split (remote_listing ''origin'' ''git@github.com:org/repo.git'') CHR 0x0A)
     = Some (fetch_line ''origin'' ''git@github.com:org/repo.git'')"
  "find (\<lambda>l. Contains l ''fetch'') (Split (remote_listing ''origin'' ''git@github.com:golang/go'') CHR 0x0A)
     = Some (fetch_line ''origin'' ''git@github.com:golang/go'')"
  "find (\<lambda>l. Contains l ''fetch'') (Split (remote_listing ''origin'' ''https://github.com/org/repo.git'') CHR 0x0A)
     = Some (fetch_line ''origin'' ''https://github.com/org/repo.git'')"
  "find (\<lambda>l. Contains l ''fetch'') (Split (remote_listing ''origin'' ''https://github.com/golang/go'') CHR 0x0A)
     = Some (fetch_line ''origin'' ''https://github.com/golang/go'')"
  by code_simp+

lemma listing_ascii:
  "ascii (fetch_line ''origin'' ''git@github.com:org/repo.git'')"
  "ascii (fetch_line ''origin'' ''git@github.com:golang/go'')"
  "ascii (fetch_line ''origin'' ''https://github.com/org/repo.git'')"
  "ascii (fetch_line ''origin'' ''https://github.com/golang/go'')"
  by code_simp+

lemma listing_fields:
  "Fields (fetch_line ''origin'' ''git@github.com:org/repo.git'')
     = ''origin'' # ''git@github.com:org/repo.git'' # [''(fetch)'']"
  "Fields (fetch_line ''origin'' ''git@github.com:golang/go'')
     = ''origin'' # ''git@github.com:golang/go'' # [''(fetch)'']"
  "Fields (fetch_line ''origin'' ''https://github.com/org/repo.git'')
     = ''origin'' # ''https://github.com/org/repo.git'' # [''(fetch)'']"
  "Fields (fetch_line ''origin'' ''https://github.com/golang/go'')
     = ''origin'' # ''https://github.com/golang/go'' # [''(fetch)'']"
  by code_simp+

lemma listing_world:
  "Getenv (PROJECT_NAME (empty_world\<lparr>git_remote_v := Some output\<rparr>)) = []"
  "git_remote_v (empty_world\<lparr>git_remote_v := Some output\<rparr>) = Some output"
  by (simp_all add: empty_world_def Getenv_def)

lemma go_not_dot_git: "\<not> HasSuffix ''go'' ''.git''"
  by (simp add: HasSuffix_def)

text \<open>
  Claim C6. With \<open>PROJECT_NAME\<close> unset, let the first line of the remote listing that
  contains \<open>fetch\<close> have the URL \<open>user@host:org/repo\<close>, with or without the suffix
  \<open>.git\<close>, as its second field. Then \<open>Module\<close> returns \<open>repo\<close>. The URL is valid in
  this sense: neither \<open>user\<close> nor \<open>host\<close> contains a colon, \<open>repo\<close> is not empty and
  contains no slash, and a URL without the suffix has a \<open>repo\<close> that does not end in
  \<open>.git\<close> itself. The line is ASCII, where the model of \<open>strings.Fields\<close> is Go's.
\<close>

theorem Module_ssh_url:
  assumes "Getenv (PROJECT_NAME w) = []"
    and "git_remote_v w = Some output"
    and "find (\<lambda>l. Contains l ''fetch'') (Split output CHR 0x0A) = Some line"
    and "ascii line"
    and "Fields line = name # url # others"
    and "url = user @ ''@'' @ host @ '':'' @ org @ ''/'' @ repo @ sfx"
    and "CHR '':'' \<notin> set user" and "CHR '':'' \<notin> set host"
    and "repo \<noteq> []" and "CHR ''/'' \<notin> set repo"
    and "sfx = ''.git'' \<or> sfx = [] \<and> \<not> HasSuffix repo ''.git''"
  shows "Module w = repo"
proof -
  have "Contains line ''fetch''"
    using assms(3) by (rule find_holds)
  moreover have "url = (user @ ''@'' @ host) @ CHR '':'' # org @ CHR ''/'' # repo @ sfx"
    using assms(6) by simp
  moreover have "CHR '':'' \<notin> set (user @ ''@'' @ host)"
    using assms(7,8) by simp
  ultimately have "Module_line line = Some repo"
    using assms(5,9,10,11) by (intro Module_line_url [where a = "user @ ''@'' @ host"]) 
  with assms(1,2,3) show ?thesis by (rule Module_first_fetch_line)
qed

theorem Module_ssh_url_witness:
  "Module (empty_world\<lparr>git_remote_v :=
       Some (remote_listing ''origin'' ''git@github.com:org/repo.git'')\<rparr>) = ''repo''
   \<and> Module (empty_world\<lparr>git_remote_v :=
       Some (remote_listing ''origin'' ''git@github.com:golang/go'')\<rparr>) = ''go''"
proof
  show "Module (empty_world\<lparr>git_remote_v :=
       Some (remote_listing ''origin'' ''git@github.com:org/repo.git'')\<rparr>) = ''repo''"
    by (rule Module_ssh_url [OF listing_world listing_first_fetch(1) listing_ascii(1)
          listing_fields(1), where user = "''git''" and host = "''github.com''"
          and org = "''org''" and sfx = "''.git''"]) simp_all
  show "Module (empty_world\<lparr>git_remote_v :=
       Some (remote_listing ''origin'' ''git@github.com:golang/go'')\<rparr>) = ''go''"
    by (rule Module_ssh_url [OF listing_world listing_first_fetch(2) listing_ascii(2)
          listing_fields(2), where user = "''git''" and host = "''github.com''"
          and org = "''golang''" and sfx = "[]"]) (simp_all add: go_not_dot_git)
qed

text \<open>
  Claim C10. \<open>Module\<close> also succeeds on the HTTPS form: with \<open>PROJECT_NAME\<close> unset, let
  the first line of the remote listing that contains \<open>fetch\<close> have the URL
  \<open>scheme://host/org/repo\<close>, with or without the suffix \<open>.git\<close>, as its second field,
  where \<open>scheme\<close> contains no colon and \<open>repo\<close> is as in C6. The URL is cut at its first
  colon, the one after the scheme, \<open>.git\<close> is stripped and the last path component is
  taken: \<open>Module\<close> returns \<open>repo\<close>.
\<close>

theorem Module_https_url:
  assumes "Getenv (PROJECT_NAME w) = []"
    and "git_remote_v w = Some output"
    and "find (\<lambda>l. Contains l ''fetch'') (Split output CHR 0x0A) = Some line"
    and "ascii line"
    and "Fields line = name # url # others"
    and "url = scheme @ ''://'' @ host @ ''/'' @ org @ ''/'' @ repo @ sfx"
    and "CHR '':'' \<notin> set scheme"
    and "repo \<noteq> []" and "CHR ''/'' \<notin> set repo"
    and "sfx = ''.git'' \<or> sfx = [] \<and> \<not> HasSuffix repo ''.git''"
  shows "Module w = repo"
proof -
  have "Contains line ''fetch''"
    using assms(3) by (rule find_holds)
  moreover have "url = scheme @ CHR '':'' # (''//'' @ host @ ''/'' @ org) @ CHR ''/'' # repo @ sfx"
    using assms(6) by simp
  ultimately have "Module_line line = Some repo"
    using assms(5,7,8,9,10) by (intro Module_line_url [where a = scheme and p = "''//'' @ host @ ''/'' @ org"])
  with assms(1,2,3) show ?thesis by (rule Module_first_fetch_line)
qed

theorem Module_https_url_witness:
  "Module (empty_world\<lparr>git_remote_v :=
       Some (remote_listing ''origin'' ''https://github.com/org/repo.git'')\<rparr>) = ''repo''
   \<and> Module (empty_world\<lparr>git_remote_v :=
       Some (remote_listing ''origin'' ''https://github.com/golang/go'')\<rparr>) = ''go''"
proof
  show "Module (empty_world\<lparr>git_remote_v :=
       Some (remote_listing ''origin'' ''https://github.com/org/repo.git'')\<rparr>) = ''repo''"
    by (rule Module_https_url [OF listing_world listing_first_fetch(3) listing_ascii(3)
          listing_fields(3), where scheme = "''https''" and host = "''github.com''"
          and org = "''org''" and sfx = "''.git''"]) simp_all
  show "Module (empty_world\<lparr>git_remote_v :=
       Some (remote_listing ''origin'' ''https://github.com/golang/go'')\<rparr>) = ''go''"
    by (rule Module_https_url [OF listing_world listing_first_fetch(4) listing_ascii(4)
          listing_fields(4), where scheme = "''https''" and host = "''github.com''"
          and org = "''golang''" and sfx = "[]"]) (simp_all add: go_not_dot_git)
qed

section \<open>describe: the release number\<close>

lemma lang_hexdigit: "u \<in> lang hexdigit \<longleftrightarrow> (\<exists>c. u = [c] \<and> is_hex c)"
  by (auto simp: is_hex_def hexdigit_def)

lemma star_hexdigit_iff: "v \<in> star (lang hexdigit) \<longleftrightarrow> list_all is_hex v"
proof
  assume "v \<in> star (lang hexdigit)"
  then show "list_all is_hex v"
    by (induction rule: star.induct) (auto simp: lang_hexdigit)
next
  assume "list_all is_hex v"
  then show "v \<in> star (lang hexdigit)"
  proof (induction v)
    case Nil
    show ?case by (rule star_empty)
  next
    case (Cons c v)
    then have "[c] \<in> lang hexdigit" "v \<in> star (lang hexdigit)"
      by (simp_all add: lang_hexdigit)
    then have "[c] @ v \<in> star (lang hexdigit)" by (rule star_step)
    then show ?case by simp
  qed
qed

lemma lang_Str: "w \<in> lang (Str s) \<longleftrightarrow> w = s"
  by (induction s arbitrary: w) (auto simp: lang_Lit)

lemma lang_hash_suffix:
  "t \<in> lang hash_suffix \<longleftrightarrow> (\<exists>h. t = ''-g'' @ h \<and> h \<noteq> [] \<and> list_all is_hex h)"
proof
  assume "t \<in> lang hash_suffix"
  then obtain a u v where "t = a @ u @ v" "a \<in> lang (Str ''-g'')" "u \<in> lang hexdigit"
    "v \<in> star (lang hexdigit)"
    unfolding hash_suffix_def Plus_def lang_Seq_iff lang.simps(6) by blast
  then have "t = ''-g'' @ (u @ v) \<and> u @ v \<noteq> [] \<and> list_all is_hex (u @ v)"
    by (auto simp: lang_Str lang_Lit lang_hexdigit star_hexdigit_iff)
  then show "\<exists>h. t = ''-g'' @ h \<and> h \<noteq> [] \<and> list_all is_hex h" by blast
next
  assume "\<exists>h. t = ''-g'' @ h \<and> h \<noteq> [] \<and> list_all is_hex h"
  then obtain c h where h: "t = ''-g'' @ [c] @ h" "is_hex c" "list_all is_hex h"
    by (cases t) (auto simp: neq_Nil_conv)
  then have "''-g'' \<in> lang (Str ''-g'')" "[c] \<in> lang hexdigit" "h \<in> star (lang hexdigit)"
    by (simp_all only: lang_Str lang_hexdigit star_hexdigit_iff) auto
  then show "t \<in> lang hash_suffix"
    unfolding hash_suffix_def Plus_def lang_Seq_iff lang.simps(6) h(1) by blast
qed

lemma ReplaceAllString_to_end_cut:
  assumes "fullmatch r t" and "t \<noteq> []"
    and "\<And>k. k < length p \<Longrightarrow> \<not> fullmatch r (drop k p @ t)"
  shows "ReplaceAllString_to_end r (p @ t) = p"
  using assms(3)
proof (induction p)
  case Nil
  with assms(1,2) show ?case by (cases t) simp_all
next
  case (Cons x p)
  from Cons.prems [of 0] have "\<not> fullmatch r ((x # p) @ t)" by simp
  moreover have "ReplaceAllString_to_end r (p @ t) = p"
  proof (rule Cons.IH)
    fix k assume "k < length p"
    then show "\<not> fullmatch r (drop k p @ t)"
      using Cons.prems [of "Suc k"] by simp
  qed
  ultimately show ?case by simp
qed

lemma ReplaceAllString_to_end_none:
  assumes "\<And>k. k < length s \<Longrightarrow> \<not> fullmatch r (drop k s)"
  shows "ReplaceAllString_to_end r s = s"
  using assms
proof (induction s)
  case Nil
  show ?case by simp
next
  case (Cons x s)
  from Cons.prems [of 0] have "\<not> fullmatch r (x # s)" by simp
  moreover have "ReplaceAllString_to_end r s = s"
  proof (rule Cons.IH)
    fix k assume "k < length s"
    then show "\<not> fullmatch r (drop k s)"
      using Cons.prems [of "Suc k"] by simp
  qed
  ultimately show ?case by simp
qed

lemma not_hex: "\<not> is_hex CHR ''-''" "\<not> is_hex CHR 0x0A"
  by (simp_all add: is_hex_def)

lemma hash_suffix_only_at_marker:
  assumes "d \<noteq> []"
  shows "\<not> fullmatch hash_suffix (d @ ''-g'' @ h)"
proof
  assume "fullmatch hash_suffix (d @ ''-g'' @ h)"
  then obtain h' where h': "d @ ''-g'' @ h = ''-g'' @ h'" "list_all is_hex h'"
    unfolding fullmatch_lang lang_hash_suffix by blast
  from assms obtain x d' where d: "d = x # d'" by (cases d) auto
  with h'(1) have "d' @ ''-g'' @ h = CHR ''g'' # h'" by simp
  then have "CHR ''-'' \<in> set (CHR ''g'' # h')"
    by (metis append_Cons in_set_conv_decomp)
  then have "CHR ''-'' \<in> set h'" by simp
  with h'(2) show False
    by (auto simp: list_all_iff not_hex)
qed

lemma strip_hash_suffix:
  assumes "h \<noteq> []" and "list_all is_hex h"
  shows "ReplaceAllString_to_end hash_suffix (p @ ''-g'' @ h) = p"
proof (rule ReplaceAllString_to_end_cut)
  show "fullmatch hash_suffix (''-g'' @ h)"
    unfolding fullmatch_lang lang_hash_suffix using assms by blast
  show "''-g'' @ h \<noteq> []" by simp
  fix k assume "k < length p"
  then have "drop k p \<noteq> []" by simp
  then show "\<not> fullmatch hash_suffix (drop k p @ ''-g'' @ h)"
    by (rule hash_suffix_only_at_marker)
qed

lemma keep_without_hash_suffix:
  assumes "\<nexists>p h. s = p @ ''-g'' @ h \<and> h \<noteq> [] \<and> list_all is_hex h"
  shows "ReplaceAllString_to_end hash_suffix s = s"
proof (rule ReplaceAllString_to_end_none)
  fix k
  show "\<not> fullmatch hash_suffix (drop k s)"
  proof
    assume "fullmatch hash_suffix (drop k s)"
    then obtain h where "drop k s = ''-g'' @ h" "h \<noteq> []" "list_all is_hex h"
      unfolding fullmatch_lang lang_hash_suffix by blast
    then have "s = take k s @ ''-g'' @ h \<and> h \<noteq> [] \<and> list_all is_hex h"
      by (metis append_take_drop_id)
    with assms show False by blast
  qed
qed

lemma no_hash_suffix_before_newline:
  "\<nexists>p h. t @ [CHR 0x0A] = p @ ''-g'' @ h \<and> h \<noteq> [] \<and> list_all is_hex h"
proof
  assume "\<exists>p h. t @ [CHR 0x0A] = p @ ''-g'' @ h \<and> h \<noteq> [] \<and> list_all is_hex h"
  then obtain p h where *: "t @ [CHR 0x0A] = p @ ''-g'' @ h" "h \<noteq> []" "list_all is_hex h"
    by blast
  from *(2) have "last (p @ ''-g'' @ h) = last h" by simp
  with *(1) have "last h = CHR 0x0A" by (metis last_snoc)
  with *(2,3) show False
    by (metis last_in_set list_all_iff not_hex(2))
qed

lemma Release_disabled: "RELEASE \<noteq> 1 \<Longrightarrow> Release RELEASE w = ''1''"
  by (simp add: Release_def)

lemma Release_enabled:
  assumes "git_describe_abbrev2_tags_HEAD w = Some output"
  shows "Release 1 w
    = second_to_last_or_zero (Split (ReplaceAllString_to_end hash_suffix output) CHR ''-'')"
  using assms by (auto simp: Release_def second_to_last_or_zero_def Let_def)

lemma Release_examples:
  "Release 1 (release_world (Println ''v1.2.3-5-gabc123'')) = ''5''"
  "Release 1 (release_world (Println ''v1.2.3'')) = ''0''"
  "Release 1 (release_world ''v1.2.3'') = ''0''"
  by code_simp+

text \<open>
  Claim C4 as stated fails on the text \<open>v1.2.3-5-gabc123\<close> itself: without a newline
  after it the pattern \<open>-g[a-f0-9]+$\<close> matches, the suffix is stripped, and the
  second-to-last segment of the remainder \<open>v1.2.3-5\<close> is the tag \<open>v1.2.3\<close>, not \<open>5\<close>.
\<close>

theorem Release_bare_text_counterexample:
  "Release 1 (release_world ''v1.2.3-5-gabc123'') = ''v1.2.3''
   \<and> Release 1 (release_world ''v1.2.3-5-gabc123'') \<noteq> ''5''"
  by code_simp

text \<open>
  Claim C4, amended. With release tracking disabled \<open>Release\<close> returns \<open>1\<close>. With
  release tracking enabled it strips a suffix \<open>-g<hex>\<close> that ends the whole text of the
  describe output, splits the remainder at every \<open>-\<close> and returns the second-to-last
  segment if there are at least two segments, and \<open>0\<close> otherwise. The pattern is
  anchored at the end of the text, so nothing is stripped from an output that ends in a
  newline, as the output of \<open>git describe\<close> does: the output \<open>v1.2.3-5-gabc123\<close> followed
  by its newline has the three segments \<open>v1.2.3\<close>, \<open>5\<close> and the hash, and yields \<open>5\<close>;
  \<open>v1.2.3\<close>, with or without the newline, yields \<open>0\<close>.
\<close>

theorem Release_number:
  "(RELEASE \<noteq> 1 \<longrightarrow> Release RELEASE w = ''1'')
   \<and> (git_describe_abbrev2_tags_HEAD w = Some (p @ ''-g'' @ h) \<and> h \<noteq> [] \<and> list_all is_hex h
        \<longrightarrow> Release 1 w = second_to_last_or_zero (Split p CHR ''-''))
   \<and> (git_describe_abbrev2_tags_HEAD w = Some output
        \<and> (\<nexists>p h. output = p @ ''-g'' @ h \<and> h \<noteq> [] \<and> list_all is_hex h)
        \<longrightarrow> Release 1 w = second_to_last_or_zero (Split output CHR ''-''))
   \<and> (git_describe_abbrev2_tags_HEAD w = Some (Println t)
        \<longrightarrow> Release 1 w = second_to_last_or_zero (Split (Println t) CHR ''-''))
   \<and> Release 1 (release_world (Println ''v1.2.3-5-gabc123'')) = ''5''
   \<and> Release 1 (release_world (Println ''v1.2.3'')) = ''0''
   \<and> Release 1 (release_world ''v1.2.3'') = ''0''"
proof (intro conjI impI)
  assume "RELEASE \<noteq> 1"
  then show "Release RELEASE w = ''1''" by (rule Release_disabled)
next
  assume "git_describe_abbrev2_tags_HEAD w = Some (p @ ''-g'' @ h) \<and> h \<noteq> [] \<and> list_all is_hex h"
  then show "Release 1 w = second_to_last_or_zero (Split p CHR ''-'')"
    using Release_enabled [of w "p @ ''-g'' @ h"] strip_hash_suffix [of h p] by simp
next
  assume "git_describe_abbrev2_tags_HEAD w = Some output
    \<and> (\<nexists>p h. output = p @ ''-g'' @ h \<and> h \<noteq> [] \<and> list_all is_hex h)"
  then show "Release 1 w = second_to_last_or_zero (Split output CHR ''-'')"
    using Release_enabled [of w "output"] keep_without_hash_suffix [of "output"] by simp
next
  assume "git_describe_abbrev2_tags_HEAD w = Some (Println t)"
  then show "Release 1 w = second_to_last_or_zero (Split (Println t) CHR ''-'')"
    using Release_enabled [of w "Println t"] no_hash_suffix_before_newline [of t]
      keep_without_hash_suffix [of "t @ [CHR 0x0A]"]
    by (simp add: Println_def)
qed (rule Release_examples)+

lemma no_marker_in_plain_tag:
  "\<nexists>p h. ''v1.2.3'' = p @ ''-g'' @ h \<and> h \<noteq> [] \<and> list_all is_hex h"
proof
  assume "\<exists>p h. ''v1.2.3'' = p @ ''-g'' @ h \<and> h \<noteq> [] \<and> list_all is_hex h"
  then obtain p h where "''v1.2.3'' = p @ CHR ''-'' # CHR ''g'' # h" by auto
  then have "CHR ''-'' \<in> set ''v1.2.3''"
    by (metis in_set_conv_decomp)
  then show False by simp
qed

theorem Release_number_witness:
  "Release 0 (release_world (Println ''v1.2.3-5-gabc123'')) = ''1''
   \<and> Release 1 (release_world ''v1.2.3-5-gabc123'')
       = second_to_last_or_zero (Split ''v1.2.3-5'' CHR ''-'')
   \<and> Release 1 (release_world ''v1.2.3'')
       = second_to_last_or_zero (Split ''v1.2.3'' CHR ''-'')
   \<and> Release 1 (release_world (Println ''v1.2.3-5-gabc123''))
       = second_to_last_or_zero (Split (Println ''v1.2.3-5-gabc123'') CHR ''-'')"
  using Release_number [of 0 "release_world (Println ''v1.2.3-5-gabc123'')"]
    Release_number [of 1 "release_world ''v1.2.3-5-gabc123''" "''v1.2.3-5''" "''abc123''"]
    Release_number [of 1 "release_world ''v1.2.3''" "[]" "[]" "''v1.2.3''"]
    Release_number [of 1 "release_world (Println ''v1.2.3-5-gabc123'')" "[]" "[]"
      "Println ''v1.2.3-5-gabc123''" "''v1.2.3-5-gabc123''"]
    no_marker_in_plain_tag
  by (simp add: release_world_def empty_world_def is_hex_def Println_def)

section \<open>describe: the abbrev strategy\<close>

lemma Split_absent: "sep \<notin> set s \<Longrightarrow> Split s sep = [s]"
proof (induction s)
  case Nil
  show ?case by simp
next
  case (Cons a s)
  then have "a \<noteq> sep" "Split s sep = [s]" by auto
  then show ?case by simp
qed

lemma in_set_TrimSpace: "x \<in> set (TrimSpace s) \<Longrightarrow> x \<in> set s"
proof -
  assume "x \<in> set (TrimSpace s)"
  then have "x \<in> set (dropWhile isSpace (rev (dropWhile isSpace s)))"
    by (simp add: TrimSpace_def)
  then have "x \<in> set (rev (dropWhile isSpace s))"
    by (rule set_dropWhileD)
  then have "x \<in> set (dropWhile isSpace s)"
    by simp
  then show "x \<in> set s"
    by (rule set_dropWhileD)
qed

lemma versionAbbrev_one_line:
  assumes "git_describe_abbrev2_always_tags w = Some output"
    and "CHR ''n'' \<notin> set output"
  shows "versionAbbrev w =
     (let line = TrimSpace output in
      if HasPrefix line ''v''
      then TrimPrefix (Replace1 (Replace1 line ''-g'' []) ''-'' ''~'') ''v'' else [])"
proof -
  from assms(2) have "CHR ''n'' \<notin> set (TrimSpace output)"
    using in_set_TrimSpace by blast
  then have "Split (TrimSpace output) CHR ''n'' = [TrimSpace output]"
    by (rule Split_absent)
  with assms(1) show ?thesis
    by (simp add: versionAbbrev_def abbrev_line_def sort_Strings_def Let_def)
qed

lemma abbrev_by_lines_one_line:
  assumes "CHR 0x0A \<notin> set (TrimSpace output)"
  shows "abbrev_by_lines remove_marker output =
     (let line = TrimSpace output in
      if HasPrefix line ''v''
      then TrimPrefix (Replace1 (remove_marker line) ''-'' ''~'') ''v'' else [])"
proof -
  from assms have "Split (TrimSpace output) CHR 0x0A = [TrimSpace output]"
    by (rule Split_absent)
  then show ?thesis
    by (simp add: abbrev_by_lines_def sort_Strings_def Let_def)
qed

lemmas abbrev_eval =
  versionAbbrev_def abbrev_by_lines_def abbrev_world_def empty_world_def Println_def
  TrimSpace_def isSpace_def abbrev_line_def HasPrefix_def TrimPrefix_def sort_Strings_def
  is_hex_def

text \<open>
  Claim C3 as stated fails: \<open>versionAbbrev\<close> deletes the two characters \<open>-g\<close> and keeps
  the hash after them. For the output \<open>v1.2.3-5-gabc\<close> it returns \<open>1.2.3~5abc\<close>, where
  removing the marker \<open>-g<hash>\<close> gives \<open>1.2.3~5\<close>.
\<close>

theorem versionAbbrev_keeps_hash_counterexample:
  "Version ''abbrev'' (abbrev_world (Println ''v1.2.3-5-gabc'')) = Inr ''1.2.3~5abc''
   \<and> abbrev_by_lines remove_hash_marker (Println ''v1.2.3-5-gabc'') = ''1.2.3~5''"
  by (simp add: Version_def abbrev_eval)

text \<open>\<open>versionAbbrev\<close> cuts the output at every letter \<open>n\<close>, not at the newlines: of the
  tag \<open>v1.2.3.next\<close> only the piece before the \<open>n\<close> is left.\<close>

lemma versionAbbrev_splits_at_letter_n:
  "Version ''abbrev'' (abbrev_world (Println ''v1.2.3.next-5-gabc'')) = Inr ''1.2.3.''"
  by (simp add: Version_def abbrev_eval)

text \<open>
  Claim C3, amended. Under the abbrev strategy, for a describe output that is ASCII,
  has no letter \<open>n\<close> and is a single line once the white space around it is trimmed,
  \<open>versionAbbrev\<close> returns what the specification describes when the marker is removed
  by deleting the first \<open>-g\<close> only (the hash stays): the lines that begin with \<open>v\<close>, on
  each the first \<open>-g\<close> deleted and then the first \<open>-\<close> turned into \<open>~\<close>, sorted
  lexically, the greatest entry without its leading \<open>v\<close>, and the empty string when no
  line begins with \<open>v\<close>. That is the one line so rewritten, or the empty string.
\<close>

theorem versionAbbrev_single_line:
  assumes "git_describe_abbrev2_always_tags w = Some output"
    and "ascii output"
    and "CHR ''n'' \<notin> set output"
    and "CHR 0x0A \<notin> set (TrimSpace output)"
  shows "Version ''abbrev'' w = Inr (versionAbbrev w)
    \<and> versionAbbrev w = abbrev_by_lines (\<lambda>line. Replace1 line ''-g'' []) output
    \<and> versionAbbrev w =
        (let line = TrimSpace output in
         if HasPrefix line ''v''
         then TrimPrefix (Replace1 (Replace1 line ''-g'' []) ''-'' ''~'') ''v'' else [])"
  using versionAbbrev_one_line [OF assms(1,3)] abbrev_by_lines_one_line [OF assms(4)]
  by (simp add: Version_def)

theorem versionAbbrev_single_line_witness:
  "Version ''abbrev'' (abbrev_world (Println ''v1.2.3-5-gabc''))
     = Inr (abbrev_by_lines (\<lambda>line. Replace1 line ''-g'' []) (Println ''v1.2.3-5-gabc''))"
proof -
  have 1: "git_describe_abbrev2_always_tags (abbrev_world (Println ''v1.2.3-5-gabc''))
      = Some (Println ''v1.2.3-5-gabc'')"
    by (simp add: abbrev_world_def empty_world_def)
  have 2: "ascii (Println ''v1.2.3-5-gabc'')" by code_simp
  have 3: "CHR ''n'' \<notin> set (Println ''v1.2.3-5-gabc'')" by (simp add: Println_def)
  have 4: "CHR 0x0A \<notin> set (TrimSpace (Println ''v1.2.3-5-gabc''))" by code_simp
  from versionAbbrev_single_line [OF 1 2 3 4] show ?thesis by simp
qed

end
